theory Spec2Isabelle
  imports Main
begin

section \<open>Library functions the program imports\<close>

text \<open>
  The orchestrator imports \<^verbatim>\<open>uniq\<close>, \<^verbatim>\<open>chunk\<close> and \<^verbatim>\<open>flatten\<close> from lodash.
  \<^verbatim>\<open>chunk(array, size)\<close> returns the empty array when the array is empty or the size
  is below one, and otherwise slices the array from the left into pieces of \<open>size\<close>
  elements, the last piece holding what remains.  The size is a count, modelled as a
  natural number.
\<close>

function chunk :: "'a list \<Rightarrow> nat \<Rightarrow> 'a list list" where
  "chunk array sz =
     (if array = [] \<or> sz < 1 then []
      else take sz array # chunk (drop sz array) sz)"
  by pat_completeness auto
termination
  by (relation "measure (\<lambda>(array, sz). length array)") auto

declare chunk.simps [simp del]

text \<open>
  \<^verbatim>\<open>flatten\<close> removes one level of nesting.
\<close>

definition flatten :: "'a list list \<Rightarrow> 'a list" where
  "flatten arrays = concat arrays"

text \<open>
  \<^verbatim>\<open>uniq(array)\<close> walks the array from the left and appends a value to the result
  unless the result already includes it.
\<close>

fun baseUniq :: "'a list \<Rightarrow> 'a list \<Rightarrow> 'a list" where
  "baseUniq [] result = result"
| "baseUniq (v # rest) result =
     (if v \<in> set result then baseUniq rest result else baseUniq rest (result @ [v]))"

definition uniq :: "'a list \<Rightarrow> 'a list" where
  "uniq array = baseUniq array []"

section \<open>The batch executor \<^verbatim>\<open>chunkRequests\<close>\<close>

text \<open>
  \<^verbatim>\<open>requestFn(value, i)\<close> returns a promise.  The model writes \<open>requestFn value i\<close> for
  what that promise settles to: \<open>Inl e\<close> when it rejects with \<open>e\<close>, \<open>Inr r\<close> when it
  fulfils with \<open>r\<close>.  When the promises of one group settle is not decided by the
  program; the parameter \<open>lat\<close> gives every operation, by its global index, a latency,
  and the promises of a group settle in the order of their latencies (operations of equal
  latency in the order of their launch).

  A run is observed through its events: \<open>Launch v j\<close> when \<^verbatim>\<open>requestFn(v, j)\<close> is called,
  \<open>Settle j\<close> when the promise of operation \<open>j\<close> settles while the executor awaits it.
\<close>

datatype 'i event = Launch 'i nat | Settle nat

text \<open>
  \<^verbatim>\<open>Promise.all\<close> fulfils with the values in the order of the array once every promise
  has fulfilled, and rejects as soon as one promise rejects, with that promise's reason.
  The promises come as pairs of global index and outcome.
\<close>

fun settles_until_reject :: "(nat \<times> ('e + 'r)) list \<Rightarrow> nat list \<times> 'e option" where
  "settles_until_reject [] = ([], None)"
| "settles_until_reject ((j, Inl e) # rest) = ([j], Some e)"
| "settles_until_reject ((j, Inr r) # rest) =
     (case settles_until_reject rest of (js, rej) \<Rightarrow> (j # js, rej))"

fun fulfilled_values :: "('e + 'r) list \<Rightarrow> 'r list" where
  "fulfilled_values [] = []"
| "fulfilled_values (Inl e # rest) = fulfilled_values rest"
| "fulfilled_values (Inr r # rest) = r # fulfilled_values rest"

definition promise_all ::
  "(nat \<Rightarrow> nat) \<Rightarrow> (nat \<times> ('e + 'r)) list \<Rightarrow> 'i event list \<times> ('e + 'r list)" where
  "promise_all lat promises =
     (case settles_until_reject (sort_key (\<lambda>p. lat (fst p)) promises) of
        (js, Some e) \<Rightarrow> (map Settle js, Inl e)
      | (js, None) \<Rightarrow> (map Settle js, Inr (fulfilled_values (map snd promises))))"

text \<open>
  The loop of \<^verbatim>\<open>chunkRequests\<close>: \<open>i\<close> is the loop counter, the list is
  \<^verbatim>\<open>chunks[i], chunks[i+1], ...\<close> and \<open>result\<close> is the array of group results pushed
  so far.  A rejected \<^verbatim>\<open>Promise.all\<close> makes the \<^verbatim>\<open>await\<close> throw, which ends the loop.
\<close>

fun chunkRequests_loop ::
  "(nat \<Rightarrow> nat) \<Rightarrow> ('i \<Rightarrow> nat \<Rightarrow> 'e + 'r) \<Rightarrow> nat \<Rightarrow> nat \<Rightarrow> 'i list list \<Rightarrow> 'r list list
     \<Rightarrow> 'i event list \<times> ('e + 'r list list)" where
  "chunkRequests_loop lat requestFn concurrentRequests i [] result = ([], Inr result)"
| "chunkRequests_loop lat requestFn concurrentRequests i (c # rest) result =
     (let calls = zip c (map (\<lambda>index. i * concurrentRequests + index) [0..<length c]);
          launches = map (\<lambda>(v, j). Launch v j) calls;
          promises = map (\<lambda>(v, j). (j, requestFn v j)) calls
      in case promise_all lat promises of
           (settles, Inl e) \<Rightarrow> (launches @ settles, Inl e)
         | (settles, Inr values) \<Rightarrow>
             (case chunkRequests_loop lat requestFn concurrentRequests (i + 1) rest
                     (result @ [values]) of
                (evs, out) \<Rightarrow> (launches @ settles @ evs, out)))"

definition chunkRequests ::
  "(nat \<Rightarrow> nat) \<Rightarrow> 'i list \<Rightarrow> ('i \<Rightarrow> nat \<Rightarrow> 'e + 'r) \<Rightarrow> nat \<Rightarrow> 'i event list \<times> ('e + 'r list)" where
  "chunkRequests lat inputArray requestFn concurrentRequests =
     (let chunks = chunk inputArray concurrentRequests
      in case chunkRequests_loop lat requestFn concurrentRequests 0 chunks [] of
           (evs, Inl e) \<Rightarrow> (evs, Inl e)
         | (evs, Inr result) \<Rightarrow> (evs, Inr (flatten result)))"

text \<open>The default value of the parameter \<^verbatim>\<open>concurrentRequests\<close>.\<close>

definition default_concurrentRequests :: nat where
  "default_concurrentRequests = 10"

text \<open>
  The operations in flight after a sequence of events: those launched and not yet settled.
\<close>

fun in_flight_step :: "nat set \<Rightarrow> 'i event \<Rightarrow> nat set" where
  "in_flight_step S (Launch v j) = insert j S"
| "in_flight_step S (Settle j) = S - {j}"

definition in_flight :: "'i event list \<Rightarrow> nat set" where
  "in_flight evs = foldl in_flight_step {} evs"

text \<open>The calls of the operation in a run, in the order they were made.\<close>

fun launched :: "'i event list \<Rightarrow> ('i \<times> nat) list" where
  "launched [] = []"
| "launched (Launch v j # evs) = (v, j) # launched evs"
| "launched (Settle j # evs) = launched evs"

section \<open>The retry wrapper \<^verbatim>\<open>retryAfterRateLimitApplied\<close>\<close>

text \<open>
  What the wrapper inspects of a thrown value: \<^verbatim>\<open>error.response?.status\<close> and
  \<^verbatim>\<open>error.response.headers["retry-after"]\<close>.  An error without a response (a network
  failure, the \<^verbatim>\<open>Error("Not authenticated")\<close> of \<^verbatim>\<open>assertClient\<close>) has
  \<open>response = None\<close>.
\<close>

record http_response =
  status :: int
  headers :: "(string \<times> string) list"

record error =
  message :: string
  response :: "http_response option"

definition TOO_MANY_REQUESTS :: int where
  "TOO_MANY_REQUESTS = 429"

definition MAX_RETRIES :: nat where
  "MAX_RETRIES = 10"

text \<open>The default value of the parameter \<^verbatim>\<open>previousRetries\<close>.\<close>

definition default_previousRetries :: nat where
  "default_previousRetries = 0"

text \<open>
  \<^verbatim>\<open>parseInt(string, 10)\<close>: leading white space is skipped, one sign is read, then the
  longest run of decimal digits; with no digit the result is \<^verbatim>\<open>NaN\<close>, here \<open>None\<close>.
  An argument that is \<^verbatim>\<open>undefined\<close> is first converted to the string "undefined".
  The number is an unbounded integer here (the double of the program is exact up to
  \<open>2 ^ 53\<close>).
\<close>

definition isStrWhiteSpaceChar :: "char \<Rightarrow> bool" where
  "isStrWhiteSpaceChar c =
     (c = CHR '' '' \<or> c = CHR 0x09 \<or> c = CHR 0x0A \<or> c = CHR 0x0B \<or> c = CHR 0x0C \<or> c = CHR 0x0D)"

definition isDigit :: "char \<Rightarrow> bool" where
  "isDigit c = (c \<in> set ''0123456789'')"

definition digitValue :: "char \<Rightarrow> nat" where
  "digitValue c = of_char c - of_char (CHR ''0'')" for c :: char

definition digitsValue :: "string \<Rightarrow> nat" where
  "digitsValue ds = foldl (\<lambda>acc d. 10 * acc + digitValue d) 0 ds"

definition parseInt :: "string option \<Rightarrow> int option" where
  "parseInt arg =
     (let inputString = (case arg of None \<Rightarrow> ''undefined'' | Some str \<Rightarrow> str);
          s = dropWhile isStrWhiteSpaceChar inputString;
          sign = (case s of c # cs \<Rightarrow> if c = CHR ''-'' then - 1 else 1 | [] \<Rightarrow> (1 :: int));
          s' = (case s of c # cs \<Rightarrow> if c = CHR ''-'' \<or> c = CHR ''+'' then cs else s | [] \<Rightarrow> s);
          z = takeWhile isDigit s'
      in if z = [] then None else Some (sign * int (digitsValue z)))"

definition response_status :: "error \<Rightarrow> int option" where
  "response_status err = (case response err of None \<Rightarrow> None | Some r \<Rightarrow> Some (status r))"

definition retry_after_header :: "error \<Rightarrow> string option" where
  "retry_after_header err =
     (case response err of None \<Rightarrow> None | Some r \<Rightarrow> map_of (headers r) ''retry-after'')"

text \<open>
  What a call of the wrapper does, in order: \<open>Invoke\<close> for a call of \<^verbatim>\<open>innerFn\<close>,
  \<open>ConsoleLog secondsToWait n\<close> for the progress line announcing retry \<open>n\<close>, and
  \<open>SetTimeout ms\<close> for the timer the wrapper awaits, with the delay handed to
  \<^verbatim>\<open>setTimeout\<close> (\<open>None\<close> when it is \<^verbatim>\<open>NaN\<close>).
\<close>

datatype retry_event = Invoke | ConsoleLog "int option" nat | SetTimeout "int option"

text \<open>
  \<^verbatim>\<open>innerFn\<close> acts on the outside world: it takes the state of the world it acts on
  and returns its outcome with the new state.
\<close>

function retryAfterRateLimitApplied ::
  "('s \<Rightarrow> (error + 'a) \<times> 's) \<Rightarrow> nat \<Rightarrow> 's \<Rightarrow> (error + 'a) \<times> retry_event list \<times> 's" where
  "retryAfterRateLimitApplied innerFn previousRetries s =
     (case innerFn s of
        (Inr v, s') \<Rightarrow> (Inr v, [Invoke], s')
      | (Inl err, s') \<Rightarrow>
          if response_status err \<noteq> Some TOO_MANY_REQUESTS \<or> previousRetries \<ge> MAX_RETRIES
          then (Inl err, [Invoke], s')
          else
            (let secondsToWait = parseInt (retry_after_header err)
             in case retryAfterRateLimitApplied innerFn (previousRetries + 1) s' of
                  (out, evs, s'') \<Rightarrow>
                    (out,
                     [Invoke, ConsoleLog secondsToWait (previousRetries + 1),
                      SetTimeout (map_option (\<lambda>n. n * 1000) secondsToWait)] @ evs,
                     s'')))"
  by pat_completeness auto
termination
  by (relation "measure (\<lambda>(innerFn, previousRetries, s). MAX_RETRIES - previousRetries)") auto

declare retryAfterRateLimitApplied.simps [simp del]

fun count_invocations :: "retry_event list \<Rightarrow> nat" where
  "count_invocations [] = 0"
| "count_invocations (Invoke # evs) = Suc (count_invocations evs)"
| "count_invocations (ev # evs) = count_invocations evs"

fun timers :: "retry_event list \<Rightarrow> int option list" where
  "timers [] = []"
| "timers (SetTimeout ms # evs) = ms # timers evs"
| "timers (ev # evs) = timers evs"

fun retry_numbers :: "retry_event list \<Rightarrow> nat list" where
  "retry_numbers [] = []"
| "retry_numbers (ConsoleLog secs n # evs) = n # retry_numbers evs"
| "retry_numbers (ev # evs) = retry_numbers evs"

section \<open>The client \<^verbatim>\<open>SpotifyClient\<close>\<close>

text \<open>
  Of the objects of the remote interface the records keep the fields the program reads.
\<close>

record ArtistObject =
  artist_id :: string
  artist_name :: string
  artist_popularity :: int
  followers_total :: int

record SimplifiedAlbumObject =
  album_id :: string
  album_name :: string
  release_date :: string

record 'r PagingObject =
  items :: "'r list"
  limit :: int
  total :: int

record ArtistsObject =
  artists :: "ArtistObject list"

record 'd AxiosResponse =
  data :: 'd

datatype param = Str string | Num int

record request =
  url :: string
  params :: "(string \<times> param) list"

record AxiosInstance =
  baseURL :: string
  auth_headers :: "(string \<times> string) list"

record SpotifyClient =
  client :: "AxiosInstance option"

text \<open>
  The remote interface is a parameter: \<open>server req n\<close> is the answer to request \<open>req\<close>
  when \<open>n\<close> requests have been sent before it.  The state of the world is the list of
  the requests sent so far.
\<close>

definition axios_get ::
  "(request \<Rightarrow> nat \<Rightarrow> error + 'd AxiosResponse) \<Rightarrow> AxiosInstance \<Rightarrow> string \<Rightarrow> (string \<times> param) list
     \<Rightarrow> request list \<Rightarrow> (error + 'd AxiosResponse) \<times> request list" where
  "axios_get server instance u ps sent =
     (server \<lparr>url = u, params = ps\<rparr> (length sent), sent @ [\<lparr>url = u, params = ps\<rparr>])"

definition assertClient :: "SpotifyClient \<Rightarrow> error + AxiosInstance" where
  "assertClient this =
     (case client this of
        None \<Rightarrow> Inl \<lparr>message = ''Not authenticated'', response = None\<rparr>
      | Some c \<Rightarrow> Inr c)"

fun join :: "string \<Rightarrow> string list \<Rightarrow> string" where
  "join sep [] = []"
| "join sep [x] = x"
| "join sep (x # y # ys) = x @ sep @ join sep (y # ys)"

definition getArtists ::
  "(request \<Rightarrow> nat \<Rightarrow> error + ArtistsObject AxiosResponse) \<Rightarrow> SpotifyClient \<Rightarrow> string list
     \<Rightarrow> request list \<Rightarrow> (error + ArtistObject list) \<times> retry_event list \<times> request list" where
  "getArtists server this ids sent =
     (case retryAfterRateLimitApplied
             (\<lambda>s. case assertClient this of
                     Inl err \<Rightarrow> (Inl err, s)
                   | Inr c \<Rightarrow> axios_get server c ''artists'' [(''ids'', Str (join '','' ids))] s)
             default_previousRetries sent of
        (Inl err, evs, sent') \<Rightarrow> (Inl err, evs, sent')
      | (Inr resp, evs, sent') \<Rightarrow> (Inr (artists (data resp)), evs, sent'))"

text \<open>
  \<^verbatim>\<open>response.data.items[0]\<close> is \<^verbatim>\<open>undefined\<close> when the page has no item: \<open>None\<close>.
\<close>

definition getLatestAlbum ::
  "(request \<Rightarrow> nat \<Rightarrow> error + SimplifiedAlbumObject PagingObject AxiosResponse) \<Rightarrow> SpotifyClient
     \<Rightarrow> string \<Rightarrow> request list
     \<Rightarrow> (error + SimplifiedAlbumObject option) \<times> retry_event list \<times> request list" where
  "getLatestAlbum server this artistId sent =
     (case retryAfterRateLimitApplied
             (\<lambda>s. case assertClient this of
                     Inl err \<Rightarrow> (Inl err, s)
                   | Inr c \<Rightarrow>
                       axios_get server c (''artists/'' @ artistId @ ''/albums'')
                         [(''limit'', Num 1)] s)
             default_previousRetries sent of
        (Inl err, evs, sent') \<Rightarrow> (Inl err, evs, sent')
      | (Inr resp, evs, sent') \<Rightarrow>
          (Inr (case items (data resp) of [] \<Rightarrow> None | album # rest \<Rightarrow> Some album), evs, sent'))"

section \<open>The orchestrator \<^verbatim>\<open>main\<close>\<close>

record SpotifyRef =
  spotify_id :: "string option"

record RemoteIds =
  spotify :: "SpotifyRef option"

datatype cell = CString string | CNumber int | CDate string | CUndefined

record InputRecord =
  originalInput :: "(string \<times> cell) list"
  shop_artist_ids :: "RemoteIds option"

record OutputRecord =
  original :: "(string \<times> cell) list"
  spotifyId :: "string option"
  artistName :: "string option"
  popularity :: "int option"
  followers :: "int option"
  latestAlbumName :: "string option"
  latestAlbumReleaseDate :: "string option"

datatype format = Json | Csv

text \<open>The options \<^verbatim>\<open>input\<close> and \<^verbatim>\<open>output\<close> are the fields \<open>inputFile\<close> and \<open>outputFile\<close>.\<close>

record Options =
  clientId :: string
  clientSecret :: string
  inputFile :: string
  outputFile :: string
  inputFormat :: format
  outputFormat :: format

text \<open>
  \<^verbatim>\<open>shop_artist_ids?.spotify?.id\<close> where it is truthy: neither missing, nor
  \<^verbatim>\<open>null\<close>, nor the empty string.
\<close>

definition truthySpotifyId :: "InputRecord \<Rightarrow> string option" where
  "truthySpotifyId artistData =
     (case shop_artist_ids artistData of
        None \<Rightarrow> None
      | Some ids \<Rightarrow>
          (case spotify ids of
             None \<Rightarrow> None
           | Some ref \<Rightarrow>
               (case spotify_id ref of
                  None \<Rightarrow> None
                | Some i \<Rightarrow> if i = [] then None else Some i)))"

definition collectSpotifyIds :: "InputRecord list \<Rightarrow> string list" where
  "collectSpotifyIds inputRecords =
     foldl (\<lambda>spotifyIds artistData.
              case truthySpotifyId artistData of
                Some i \<Rightarrow> spotifyIds @ [i]
              | None \<Rightarrow> spotifyIds)
       [] inputRecords"

definition resolveSpotifyIds :: "InputRecord list \<Rightarrow> string list" where
  "resolveSpotifyIds inputRecords = uniq (collectSpotifyIds inputRecords)"

definition prepareOutputData ::
  "InputRecord list \<Rightarrow> (string \<rightharpoonup> ArtistObject) \<Rightarrow> (string \<rightharpoonup> SimplifiedAlbumObject)
     \<Rightarrow> OutputRecord list" where
  "prepareOutputData inputRecords spotifyIdToArtistObject artistIdToLatestAlbumDict =
     map (\<lambda>r.
            let spotifyId = truthySpotifyId r;
                spotifyArtist = (case spotifyId of Some i \<Rightarrow> spotifyIdToArtistObject i | None \<Rightarrow> None);
                latestAlbum = (case spotifyId of Some i \<Rightarrow> artistIdToLatestAlbumDict i | None \<Rightarrow> None)
            in \<lparr>original = originalInput r,
                spotifyId = spotifyId,
                artistName = map_option artist_name spotifyArtist,
                popularity = map_option artist_popularity spotifyArtist,
                followers = map_option followers_total spotifyArtist,
                latestAlbumName = map_option album_name latestAlbum,
                latestAlbumReleaseDate = map_option release_date latestAlbum\<rparr>)
       inputRecords"

text \<open>
  What a file holds is kept as the data handed to the serialiser.  The third form is the
  table of the earlier revision of the orchestrator: one row for each artist, with the
  artist's latest album where the lookup has one.
\<close>

datatype file_content =
    JsonRecords "OutputRecord list"
  | CsvRecords "OutputRecord list"
  | CsvArtistRows "(ArtistObject \<times> SimplifiedAlbumObject option) list"

definition writeOutputJson ::
  "string \<Rightarrow> OutputRecord list \<Rightarrow> (string \<rightharpoonup> file_content) \<Rightarrow> (string \<rightharpoonup> file_content)" where
  "writeOutputJson path outputRecords files = files(path \<mapsto> JsonRecords outputRecords)"

definition writeOutputCsv ::
  "string \<Rightarrow> OutputRecord list \<Rightarrow> (string \<rightharpoonup> file_content) \<Rightarrow> (string \<rightharpoonup> file_content)" where
  "writeOutputCsv path outputRecords files = files(path \<mapsto> CsvRecords outputRecords)"

text \<open>
  The two fetch stages of \<^verbatim>\<open>main\<close>.  \<open>artistsReply ids\<close> is what the promise of
  \<^verbatim>\<open>spotifyClient.getArtists(ids)\<close> settles to and \<open>latestAlbumReply i\<close> what the
  promise of \<^verbatim>\<open>spotifyClient.getLatestAlbum(i)\<close> settles to.  Both request functions
  return nothing; what they store in the lookups is read off the events below.
\<close>

definition fetchArtists ::
  "(nat \<Rightarrow> nat) \<Rightarrow> (string list \<Rightarrow> error + ArtistObject list) \<Rightarrow> string list
     \<Rightarrow> string list event list \<times> (error + unit list)" where
  "fetchArtists lat artistsReply spotifyIds =
     (let spotifyIdsInChunksOf50 = chunk spotifyIds 50
      in chunkRequests lat spotifyIdsInChunksOf50
           (\<lambda>idsChunk index.
              case artistsReply idsChunk of Inl err \<Rightarrow> Inl err | Inr artistsChunk \<Rightarrow> Inr ())
           default_concurrentRequests)"

definition fetchLatestAlbums ::
  "(nat \<Rightarrow> nat) \<Rightarrow> (string \<Rightarrow> error + SimplifiedAlbumObject option) \<Rightarrow> string list
     \<Rightarrow> string event list \<times> (error + unit list)" where
  "fetchLatestAlbums lat latestAlbumReply spotifyIds =
     chunkRequests lat spotifyIds
       (\<lambda>spotifyId i.
          case latestAlbumReply spotifyId of Inl err \<Rightarrow> Inl err | Inr album \<Rightarrow> Inr ())
       default_concurrentRequests"

text \<open>
  A request function stores its data when its request has been answered, just before
  its promise fulfils.  The lookups after a sequence of events are therefore those
  written by the operations that have settled and fulfilled, in that order.
\<close>

definition value_of_call :: "'i event list \<Rightarrow> nat \<Rightarrow> 'i option" where
  "value_of_call evs j = map_of (map (\<lambda>(v, k). (k, v)) (launched evs)) j"

definition artistDictAfter ::
  "(string list \<Rightarrow> error + ArtistObject list) \<Rightarrow> string list event list
     \<Rightarrow> (string \<rightharpoonup> ArtistObject)" where
  "artistDictAfter artistsReply evs =
     foldl (\<lambda>dict ev.
              case ev of
                Launch v j \<Rightarrow> dict
              | Settle j \<Rightarrow>
                  (case value_of_call evs j of
                     None \<Rightarrow> dict
                   | Some idsChunk \<Rightarrow>
                       (case artistsReply idsChunk of
                          Inl err \<Rightarrow> dict
                        | Inr artistsChunk \<Rightarrow>
                            foldl (\<lambda>d artist. d(artist_id artist \<mapsto> artist)) dict artistsChunk)))
       Map.empty evs"

definition albumDictAfter ::
  "('i \<Rightarrow> string) \<Rightarrow> (string \<Rightarrow> error + SimplifiedAlbumObject option) \<Rightarrow> 'i event list
     \<Rightarrow> (string \<rightharpoonup> SimplifiedAlbumObject)" where
  "albumDictAfter key latestAlbumReply evs =
     foldl (\<lambda>dict ev.
              case ev of
                Launch v j \<Rightarrow> dict
              | Settle j \<Rightarrow>
                  (case value_of_call evs j of
                     None \<Rightarrow> dict
                   | Some v \<Rightarrow>
                       (case latestAlbumReply (key v) of
                          Inl err \<Rightarrow> dict
                        | Inr album \<Rightarrow> dict(key v := album))))
       Map.empty evs"

text \<open>
  \<^verbatim>\<open>main\<close>, from the point where the input has been parsed and the client has
  authenticated.  The two stages run side by side under one \<^verbatim>\<open>Promise.all\<close>; when both
  reject, \<open>artistsFirst\<close> says which rejection came first.  The result is the error
  \<^verbatim>\<open>main\<close> rejects with, if any, and the files after the \<^verbatim>\<open>finally\<close> block.
\<close>

definition main ::
  "(nat \<Rightarrow> nat) \<Rightarrow> (nat \<Rightarrow> nat) \<Rightarrow> bool \<Rightarrow> (string list \<Rightarrow> error + ArtistObject list)
     \<Rightarrow> (string \<Rightarrow> error + SimplifiedAlbumObject option) \<Rightarrow> Options \<Rightarrow> InputRecord list
     \<Rightarrow> (string \<rightharpoonup> file_content) \<Rightarrow> error option \<times> (string \<rightharpoonup> file_content)" where
  "main latA latB artistsFirst artistsReply latestAlbumReply opts inputRecords files =
     (let spotifyIds = resolveSpotifyIds inputRecords;
          stageA = fetchArtists latA artistsReply spotifyIds;
          stageB = fetchLatestAlbums latB latestAlbumReply spotifyIds;
          thrown =
            (case (snd stageA, snd stageB) of
               (Inr ra, Inr rb) \<Rightarrow> None
             | (Inl ea, Inr rb) \<Rightarrow> Some ea
             | (Inr ra, Inl eb) \<Rightarrow> Some eb
             | (Inl ea, Inl eb) \<Rightarrow> Some (if artistsFirst then ea else eb));
          outputRecords =
            (case thrown of
               None \<Rightarrow>
                 prepareOutputData inputRecords
                   (artistDictAfter artistsReply (fst stageA))
                   (albumDictAfter (\<lambda>spotifyId. spotifyId) latestAlbumReply (fst stageB))
             | Some err \<Rightarrow> [])
      in (thrown,
          if outputFormat opts = Json then writeOutputJson (outputFile opts) outputRecords files
          else writeOutputCsv (outputFile opts) outputRecords files))"

text \<open>
  The earlier revision of \<^verbatim>\<open>main\<close>: the artists are fetched first, the latest albums
  of the artists found after that, and the \<^verbatim>\<open>finally\<close> block writes the artists and
  the album lookup as they stand.
\<close>

definition writeOutput ::
  "ArtistObject list \<Rightarrow> (string \<rightharpoonup> SimplifiedAlbumObject) \<Rightarrow> string
     \<Rightarrow> (string \<rightharpoonup> file_content) \<Rightarrow> (string \<rightharpoonup> file_content)" where
  "writeOutput artistList artistIdToLatestAlbumDict path files =
     files(path \<mapsto>
       CsvArtistRows (map (\<lambda>a. (a, artistIdToLatestAlbumDict (artist_id a))) artistList))"

definition main_earlier ::
  "(nat \<Rightarrow> nat) \<Rightarrow> (nat \<Rightarrow> nat) \<Rightarrow> (string list \<Rightarrow> error + ArtistObject list)
     \<Rightarrow> (string \<Rightarrow> error + SimplifiedAlbumObject option) \<Rightarrow> string \<Rightarrow> InputRecord list
     \<Rightarrow> (string \<rightharpoonup> file_content) \<Rightarrow> error option \<times> (string \<rightharpoonup> file_content)" where
  "main_earlier latA latB artistsReply latestAlbumReply path artistDataArray files =
     (let spotifyIds = resolveSpotifyIds artistDataArray;
          spotifyIdsInChunksOf50 = chunk spotifyIds 50
      in case chunkRequests latA spotifyIdsInChunksOf50 (\<lambda>idsChunk index. artistsReply idsChunk)
                default_concurrentRequests of
           (evsA, Inl err) \<Rightarrow> (Some err, writeOutput [] Map.empty path files)
         | (evsA, Inr chunkedArtists) \<Rightarrow>
             (let artistList = flatten chunkedArtists
              in case chunkRequests latB artistList
                        (\<lambda>artist i.
                           case latestAlbumReply (artist_id artist) of
                             Inl err \<Rightarrow> Inl err
                           | Inr album \<Rightarrow> Inr ())
                        default_concurrentRequests of
                   (evsB, out) \<Rightarrow>
                     ((case out of Inl err \<Rightarrow> Some err | Inr r \<Rightarrow> None),
                      writeOutput artistList (albumDictAfter artist_id latestAlbumReply evsB)
                        path files)))"

section \<open>Properties of the batch executor\<close>

lemma chunk_Nil [simp]: "chunk [] n = []"
  by (simp add: chunk.simps)

lemma chunk_zero [simp]: "chunk xs 0 = []"
  by (simp add: chunk.simps)

lemma chunk_step: "xs \<noteq> [] \<Longrightarrow> 0 < n \<Longrightarrow> chunk xs n = take n xs # chunk (drop n xs) n"
  by (subst chunk.simps) simp

text \<open>
  C10: called with an empty input sequence, \<^verbatim>\<open>chunkRequests\<close> returns the empty
  sequence and never calls the per-element operation, whatever the concurrency ceiling
  and the latencies.
\<close>

theorem chunkRequests_empty:
  "chunkRequests lat [] requestFn concurrentRequests = ([], Inr [])"
  by (simp add: chunkRequests_def flatten_def)

end
